theory Spec2Isabelle
  imports Complex_Main "HOL-Library.Sublist" "HOL-Library.Stream" "HOL-Library.AList"
begin

section \<open>Python values and wire messages\<close>

text \<open>
  The bridge of \<^verbatim>\<open>communication/rust_bridge.py\<close> exchanges Python dictionaries that are
  serialised with \<^verbatim>\<open>json.dumps\<close>. A value is a \<open>pyval\<close>; a dictionary is an association
  list in insertion order, as a Python \<^verbatim>\<open>dict\<close> keeps it. Python floats are modelled by
  reals: the development only compares them and copies them into messages.
\<close>

datatype pyval =
    PNone
  | PBool bool
  | PInt int
  | PFloat real
  | PStr string
  | PList "pyval list"
  | PDict "(string \<times> pyval) list"

type_synonym message = "(string \<times> pyval) list"

text \<open>\<^verbatim>\<open>d.get(key)\<close>: the value stored under the key, \<^verbatim>\<open>None\<close> when the key is absent.\<close>

definition dict_get :: "message \<Rightarrow> string \<Rightarrow> pyval" where
  "dict_get d key = (case map_of d key of None \<Rightarrow> PNone | Some v \<Rightarrow> v)"

text \<open>
  The exceptions that the modelled code can meet. \<open>TimeoutError\<close> is
  \<^verbatim>\<open>asyncio.TimeoutError\<close> (since Python 3.11 the built-in \<^verbatim>\<open>TimeoutError\<close>) and
  \<open>CancelledError\<close> is \<^verbatim>\<open>asyncio.CancelledError\<close>.
\<close>

datatype exn =
    KeyError | TypeError | ValueError | AttributeError | QueueError | ConnectionError
  | OSError | TimeoutError | CancelledError

text \<open>
  A handler \<^verbatim>\<open>except Exception\<close> catches every exception of class \<^verbatim>\<open>Exception\<close>.
  \<^verbatim>\<open>asyncio.CancelledError\<close> derives from \<^verbatim>\<open>BaseException\<close> only (since Python 3.8)
  and passes through.
\<close>

definition is_Exception :: "exn \<Rightarrow> bool" where
  "is_Exception e = (e \<noteq> CancelledError)"

text \<open>
  What a loop body hands on when an exception \<open>e\<close> reaches its handler
  \<^verbatim>\<open>except Exception\<close> in state \<open>s\<close>: the handler's state \<open>s'\<close> and the next pass, or,
  for an exception that the handler does not catch, the exception itself, which leaves
  the loop and ends the task.
\<close>

definition except_Exception :: "exn \<Rightarrow> 'a \<Rightarrow> 'a \<Rightarrow> (exn + unit) \<times> 'a" where
  "except_Exception e s s' = (if is_Exception e then (Inr (), s') else (Inl e, s))"

subsection \<open>The dataclasses\<close>

record PredictionMessage =
  symbol :: string
  direction :: real
  confidence :: real
  time_horizon :: int
  expected_move :: real
  timestamp :: int
  strategy_type :: string
  strategy_params :: message
  model_version :: string
  features_used :: "string list"

text \<open>\<^verbatim>\<open>dataclasses.asdict\<close> on a \<^verbatim>\<open>PredictionMessage\<close>.\<close>

definition asdict_prediction :: "PredictionMessage \<Rightarrow> pyval" where
  "asdict_prediction p = PDict
     [(''symbol'', PStr (PredictionMessage.symbol p)),
      (''direction'', PFloat (direction p)),
      (''confidence'', PFloat (PredictionMessage.confidence p)),
      (''time_horizon'', PInt (time_horizon p)),
      (''expected_move'', PFloat (expected_move p)),
      (''timestamp'', PInt (PredictionMessage.timestamp p)),
      (''strategy_type'', PStr (strategy_type p)),
      (''strategy_params'', PDict (strategy_params p)),
      (''model_version'', PStr (model_version p)),
      (''features_used'', PList (map PStr (features_used p)))]"

record MEVOpportunityMessage =
  symbol :: string
  opportunity_type :: string
  profit_potential :: real
  gas_cost_estimate :: real
  confidence :: real
  time_sensitive :: bool
  priority :: int
  mempool_position :: int
  block_prediction :: int
  execution_strategy :: string
  timestamp :: int

text \<open>\<^verbatim>\<open>dataclasses.asdict\<close> on a \<^verbatim>\<open>MEVOpportunityMessage\<close>.\<close>

definition asdict_opportunity :: "MEVOpportunityMessage \<Rightarrow> pyval" where
  "asdict_opportunity opp = PDict
     [(''symbol'', PStr (symbol opp)),
      (''opportunity_type'', PStr (opportunity_type opp)),
      (''profit_potential'', PFloat (profit_potential opp)),
      (''gas_cost_estimate'', PFloat (gas_cost_estimate opp)),
      (''confidence'', PFloat (confidence opp)),
      (''time_sensitive'', PBool (time_sensitive opp)),
      (''priority'', PInt (priority opp)),
      (''mempool_position'', PInt (mempool_position opp)),
      (''block_prediction'', PInt (block_prediction opp)),
      (''execution_strategy'', PStr (execution_strategy opp)),
      (''timestamp'', PInt (timestamp opp))]"

section \<open>The bridge\<close>

datatype CommunicationProtocol = WEBSOCKET | REDIS | TCP

text \<open>
  The attribute \<^verbatim>\<open>self.protocol\<close>. \<^verbatim>\<open>__init__\<close> stores what it is given: a member of
  the enumeration, or a value that is none. \<^verbatim>\<open>main.py\<close> passes the string of its
  settings, which compares unequal to every member and has no attribute \<^verbatim>\<open>value\<close>.
\<close>

datatype protocol_attr = Member CommunicationProtocol | NonMember pyval

text \<open>
  A connection object of a transport library. An attribute that holds none is
  \<^verbatim>\<open>None\<close>, which the guards \<^verbatim>\<open>if self.websocket:\<close> and the like test.
\<close>

datatype handle = Handle nat

text \<open>
  An \<^verbatim>\<open>asyncio.Future\<close>: pending, done with a result, or cancelled (what
  \<^verbatim>\<open>asyncio.wait_for\<close> does to it when the timeout expires).
\<close>

datatype future = Pending | Done pyval | Cancelled

text \<open>
  What the transport has been handed, in the order of the writes. The message stands for
  its \<^verbatim>\<open>json.dumps\<close> text. A Redis publish goes to the channel
  \<^verbatim>\<open>f"ai_to_rust_{message['type']}"\<close>, recorded by the value that is interpolated.
\<close>

datatype wire_write =
    WsFrame message
  | RedisPublish pyval message
  | TcpLine message

fun written_message :: "wire_write \<Rightarrow> message" where
  "written_message (WsFrame m) = m"
| "written_message (RedisPublish c m) = m"
| "written_message (TcpLine m) = m"

text \<open>
  The state of a \<^verbatim>\<open>RustBridge\<close>. The fields up to \<open>connection_errors\<close> are the
  attributes that \<^verbatim>\<open>__init__\<close> sets. \<open>response_futures\<close> maps a request id to the
  address of a future object; \<open>future_heap\<close> is the store of the future objects that were
  created (address \<open>a\<close> is position \<open>a\<close>), so that a coroutine and the dictionary can
  refer to the same or to different futures. \<open>wire\<close> is the log of the writes that
  reached the transport.
\<close>

record bridge =
  host :: string
  port :: int
  protocol :: protocol_attr
  connected :: bool
  websocket :: "handle option"
  redis_client :: "handle option"
  tcp_reader :: "handle option"
  tcp_writer :: "handle option"
  outbound_queue :: "message list"
  response_futures :: "(string \<times> nat) list"
  messages_sent :: int
  messages_received :: int
  connection_errors :: int
  future_heap :: "future list"
  wire :: "wire_write list"

definition RustBridge_init :: "string \<Rightarrow> int \<Rightarrow> protocol_attr \<Rightarrow> bridge" where
  "RustBridge_init h p proto =
     \<lparr>host = h, port = p, protocol = proto, connected = False,
      websocket = None, redis_client = None, tcp_reader = None, tcp_writer = None,
      outbound_queue = [], response_futures = [],
      messages_sent = 0, messages_received = 0, connection_errors = 0,
      future_heap = [], wire = []\<rparr>"

subsection \<open>Enqueueing\<close>

text \<open>
  \<^verbatim>\<open>asyncio.Queue()\<close> is created without a size bound, so \<^verbatim>\<open>put\<close> appends and
  neither waits nor raises.
\<close>

definition queue_put :: "message list \<Rightarrow> message \<Rightarrow> exn + message list" where
  "queue_put q m = Inr (q @ [m])"

text \<open>\<^verbatim>\<open>_send_message\<close>: \<^verbatim>\<open>True\<close> after the put, \<^verbatim>\<open>False\<close> when the put raised.\<close>

definition send_message :: "bridge \<Rightarrow> message \<Rightarrow> bool \<times> bridge" where
  "send_message s m =
     (case queue_put (outbound_queue s) m of
        Inr q \<Rightarrow> (True, s\<lparr>outbound_queue := q\<rparr>)
      | Inl e \<Rightarrow> (False, s))"

subsection \<open>The producers\<close>

text \<open>
  Each producer builds its dictionary and hands it to \<^verbatim>\<open>_send_message\<close>. The argument
  \<open>now_ms\<close> is the clock reading \<^verbatim>\<open>int(time.time() * 1000)\<close> of the call. The
  dictionary literals of the source are the \<open>_message\<close> definitions.
\<close>

definition prediction_message :: "PredictionMessage \<Rightarrow> int \<Rightarrow> message" where
  "prediction_message prediction now_ms =
     [(''type'', PStr ''prediction''),
      (''data'', asdict_prediction prediction),
      (''timestamp'', PInt now_ms)]"

definition send_prediction :: "bridge \<Rightarrow> PredictionMessage \<Rightarrow> int \<Rightarrow> bool \<times> bridge" where
  "send_prediction s prediction now_ms = send_message s (prediction_message prediction now_ms)"

definition mev_opportunity_message :: "MEVOpportunityMessage \<Rightarrow> int \<Rightarrow> message" where
  "mev_opportunity_message opportunity now_ms =
     [(''type'', PStr ''mev_opportunity''),
      (''data'', asdict_opportunity opportunity),
      (''timestamp'', PInt now_ms)]"

definition send_mev_opportunity ::
  "bridge \<Rightarrow> MEVOpportunityMessage \<Rightarrow> int \<Rightarrow> bool \<times> bridge" where
  "send_mev_opportunity s opportunity now_ms =
     send_message s (mev_opportunity_message opportunity now_ms)"

definition metrics_message :: "message \<Rightarrow> int \<Rightarrow> message" where
  "metrics_message metrics now_ms =
     [(''type'', PStr ''metrics''),
      (''data'', PDict metrics),
      (''timestamp'', PInt now_ms)]"

definition send_metrics :: "bridge \<Rightarrow> message \<Rightarrow> int \<Rightarrow> bool \<times> bridge" where
  "send_metrics s metrics now_ms = send_message s (metrics_message metrics now_ms)"

definition heartbeat_message :: "bridge \<Rightarrow> int \<Rightarrow> message" where
  "heartbeat_message s now_ms =
     [(''type'', PStr ''heartbeat''),
      (''data'', PDict
         [(''status'', PStr ''alive''),
          (''timestamp'', PInt now_ms),
          (''messages_sent'', PInt (messages_sent s)),
          (''messages_received'', PInt (messages_received s))])]"

definition send_heartbeat :: "bridge \<Rightarrow> int \<Rightarrow> bool \<times> bridge" where
  "send_heartbeat s now_ms = send_message s (heartbeat_message s now_ms)"

subsection \<open>The feedback request\<close>

text \<open>\<^verbatim>\<open>str\<close> of a Python integer, for the f-string of the request id.\<close>

fun str_nat :: "nat \<Rightarrow> string" where
  "str_nat n =
     (if n < 10 then [''0123456789'' ! n]
      else str_nat (n div 10) @ [''0123456789'' ! (n mod 10)])"

definition str_int :: "int \<Rightarrow> string" where
  "str_int i = (if i < 0 then CHR ''-'' # str_nat (nat (- i)) else str_nat (nat i))"

text \<open>
  \<^verbatim>\<open>f"feedback_{int(time.time())}"\<close>: \<open>now_s\<close> is the clock reading
  \<^verbatim>\<open>int(time.time())\<close>, in whole seconds.
\<close>

definition feedback_request_id :: "int \<Rightarrow> string" where
  "feedback_request_id now_s = ''feedback_'' @ str_int now_s"

definition request_feedback_message :: "int \<Rightarrow> int \<Rightarrow> message" where
  "request_feedback_message now_s now_ms =
     [(''type'', PStr ''request_feedback''),
      (''request_id'', PStr (feedback_request_id now_s)),
      (''timestamp'', PInt now_ms)]"

text \<open>
  \<^verbatim>\<open>get_performance_feedback\<close> is a coroutine that suspends at
  \<^verbatim>\<open>asyncio.wait_for(future, timeout=5.0)\<close>; other tasks run while it waits. It is
  modelled by its two halves. The first runs up to the suspension: it either returns
  (\<open>Returned\<close>) or waits with its local variables \<^verbatim>\<open>request_id\<close> and
  \<^verbatim>\<open>future\<close> (\<open>Waiting\<close>).
\<close>

datatype suspended = Returned pyval | Waiting string nat

definition get_performance_feedback_start ::
  "bridge \<Rightarrow> int \<Rightarrow> int \<Rightarrow> suspended \<times> bridge" where
  "get_performance_feedback_start s now_s now_ms =
     (let message = request_feedback_message now_s now_ms;
          request_id = feedback_request_id now_s;
          future = length (future_heap s);
          s1 = s\<lparr>future_heap := future_heap s @ [Pending],
                 response_futures := AList.update request_id future (response_futures s)\<rparr>;
          (success, s2) = send_message s1 message
      in if success then (Waiting request_id future, s2) else (Returned PNone, s2))"

text \<open>
  The second half runs when \<^verbatim>\<open>wait_for\<close> wakes the coroutine. If the future is done
  by then, its result is returned. If it is still pending, the five seconds have passed:
  \<^verbatim>\<open>wait_for\<close> cancels the future and raises \<^verbatim>\<open>TimeoutError\<close>, and the handler runs
  \<^verbatim>\<open>del self.response_futures[request_id]\<close>, which raises \<^verbatim>\<open>KeyError\<close> when the key
  is not in the dictionary; nothing catches that. Nothing in the bridge cancels a future
  that a coroutine still waits for; awaiting one would raise \<^verbatim>\<open>CancelledError\<close>.
\<close>

definition get_performance_feedback_resume ::
  "bridge \<Rightarrow> string \<Rightarrow> nat \<Rightarrow> (exn + pyval) \<times> bridge" where
  "get_performance_feedback_resume s request_id future =
     (case future_heap s ! future of
        Done response \<Rightarrow> (Inr response, s)
      | Cancelled \<Rightarrow> (Inl CancelledError, s)
      | Pending \<Rightarrow>
          (let s1 = s\<lparr>future_heap := (future_heap s)[future := Cancelled]\<rparr>
           in if map_of (response_futures s1) request_id = None then (Inl KeyError, s1)
              else (Inr PNone,
                    s1\<lparr>response_futures := AList.delete request_id (response_futures s1)\<rparr>)))"

subsection \<open>The receiver\<close>

text \<open>
  What a read on the transport gives within its one-second wait. A decoded message is a
  dictionary; \<open>RecvEmpty\<close> is an empty read: the end of the stream on TCP, and on a
  WebSocket a frame that \<^verbatim>\<open>json.loads\<close> rejects. The handler
  \<^verbatim>\<open>except asyncio.TimeoutError: return None\<close> of the two reading functions also
  catches a \<^verbatim>\<open>TimeoutError\<close> that the read itself raises.
\<close>

datatype recv_outcome = RecvTimeout | RecvRaises exn | RecvMessage message | RecvEmpty

definition receive_websocket :: "bridge \<Rightarrow> recv_outcome \<Rightarrow> exn + message option" where
  "receive_websocket s inbound =
     (case websocket s of
        None \<Rightarrow> Inr None
      | Some h \<Rightarrow>
          (case inbound of
             RecvTimeout \<Rightarrow> Inr None
           | RecvRaises e \<Rightarrow> (if e = TimeoutError then Inr None else Inl e)
           | RecvMessage m \<Rightarrow> Inr (Some m)
           | RecvEmpty \<Rightarrow> Inl ValueError))"

text \<open>\<^verbatim>\<open>_receive_redis\<close> reads nothing and returns \<^verbatim>\<open>None\<close>.\<close>

definition receive_redis :: "bridge \<Rightarrow> recv_outcome \<Rightarrow> exn + message option" where
  "receive_redis s inbound = Inr None"

definition receive_tcp :: "bridge \<Rightarrow> recv_outcome \<Rightarrow> exn + message option" where
  "receive_tcp s inbound =
     (case tcp_reader s of
        None \<Rightarrow> Inr None
      | Some h \<Rightarrow>
          (case inbound of
             RecvTimeout \<Rightarrow> Inr None
           | RecvRaises e \<Rightarrow> (if e = TimeoutError then Inr None else Inl e)
           | RecvMessage m \<Rightarrow> Inr (Some m)
           | RecvEmpty \<Rightarrow> Inr None))"

definition status_response_message :: "bridge \<Rightarrow> int \<Rightarrow> message" where
  "status_response_message s now_ms =
     [(''type'', PStr ''status_response''),
      (''data'', PDict
         [(''status'', PStr ''running''),
          (''connected'', PBool True),
          (''messages_sent'', PInt (messages_sent s)),
          (''messages_received'', PInt (messages_received s)),
          (''connection_errors'', PInt (connection_errors s))]),
      (''timestamp'', PInt now_ms)]"

text \<open>
  \<^verbatim>\<open>_handle_received_message\<close>. The test \<^verbatim>\<open>request_id in self.response_futures\<close>
  raises \<^verbatim>\<open>TypeError\<close> for an unhashable key (a list or a dictionary) and is false for
  every other value that is not a string, since all keys are strings. Every address in
  \<open>response_futures\<close> was allocated by \<open>get_performance_feedback_start\<close>.
\<close>

definition handle_received_message :: "bridge \<Rightarrow> message \<Rightarrow> int \<Rightarrow> (exn + unit) \<times> bridge" where
  "handle_received_message s message now_ms =
     (let message_type = dict_get message ''type'' in
      if message_type = PStr ''feedback_response'' then
        (case dict_get message ''request_id'' of
           PStr request_id \<Rightarrow>
             (case map_of (response_futures s) request_id of
                None \<Rightarrow> (Inr (), s)
              | Some future \<Rightarrow>
                  (let s1 = s\<lparr>response_futures := AList.delete request_id (response_futures s)\<rparr>
                   in if future_heap s1 ! future = Pending
                      then (Inr (), s1\<lparr>future_heap :=
                              (future_heap s1)[future := Done (dict_get message ''data'')]\<rparr>)
                      else (Inr (), s1)))
         | PList l \<Rightarrow> (Inl TypeError, s)
         | PDict d \<Rightarrow> (Inl TypeError, s)
         | _ \<Rightarrow> (Inr (), s))
      else if message_type = PStr ''config_update'' then (Inr (), s)
      else if message_type = PStr ''status_request'' then
        (Inr (), snd (send_message s (status_response_message s now_ms)))
      else (Inr (), s))"

text \<open>
  One pass through the body of the \<^verbatim>\<open>while self.connected\<close> loop of
  \<^verbatim>\<open>_message_receiver\<close>; the \<^verbatim>\<open>except Exception\<close> branch only logs and sleeps. For
  a protocol that is no member of the enumeration the body sleeps and continues. The
  result is \<open>Inr ()\<close> when the pass ends and the loop goes on, and \<open>Inl e\<close> when the
  exception \<open>e\<close> leaves the loop.
\<close>

definition message_receiver_iteration ::
  "bridge \<Rightarrow> recv_outcome \<Rightarrow> int \<Rightarrow> (exn + unit) \<times> bridge" where
  "message_receiver_iteration s inbound now_ms =
     (case protocol s of
        NonMember v \<Rightarrow> (Inr (), s)
      | Member p \<Rightarrow>
          (case (case p of
                   WEBSOCKET \<Rightarrow> receive_websocket s inbound
                 | REDIS \<Rightarrow> receive_redis s inbound
                 | TCP \<Rightarrow> receive_tcp s inbound) of
             Inl e \<Rightarrow> except_Exception e s s
           | Inr None \<Rightarrow> (Inr (), s)
           | Inr (Some message) \<Rightarrow>
               (if message = [] then (Inr (), s)
                else (case handle_received_message s message now_ms of
                        (Inl e, s1) \<Rightarrow> except_Exception e s1 s1
                      | (Inr u, s1) \<Rightarrow>
                          (Inr (), s1\<lparr>messages_received := messages_received s1 + 1\<rparr>)))))"

subsection \<open>Connecting\<close>

text \<open>
  What one connection attempt (\<^verbatim>\<open>websockets.connect\<close>, \<^verbatim>\<open>aioredis.from_url\<close>,
  \<^verbatim>\<open>asyncio.open_connection\<close>) does: it returns a connection object, or it raises.
  Which of the two a library call does for a given server is the library's matter:
  \<^verbatim>\<open>from_url\<close> builds its client without opening a connection, so on the Redis variant
  an unreachable server does not make the attempt raise.
\<close>

datatype conn_attempt = ConnOk handle | ConnRaises exn

definition connect_websocket :: "bridge \<Rightarrow> conn_attempt \<Rightarrow> exn + bridge" where
  "connect_websocket s a =
     (case a of ConnRaises e \<Rightarrow> Inl e | ConnOk h \<Rightarrow> Inr (s\<lparr>websocket := Some h\<rparr>))"

definition connect_redis :: "bridge \<Rightarrow> conn_attempt \<Rightarrow> exn + bridge" where
  "connect_redis s a =
     (case a of ConnRaises e \<Rightarrow> Inl e | ConnOk h \<Rightarrow> Inr (s\<lparr>redis_client := Some h\<rparr>))"

definition connect_tcp :: "bridge \<Rightarrow> conn_attempt \<Rightarrow> exn + bridge" where
  "connect_tcp s a =
     (case a of
        ConnRaises e \<Rightarrow> Inl e
      | ConnOk h \<Rightarrow> Inr (s\<lparr>tcp_reader := Some h, tcp_writer := Some h\<rparr>))"

text \<open>
  \<^verbatim>\<open>connect\<close>. The network is the stream of the answers it would give to successive
  attempts; \<^verbatim>\<open>connect\<close> returns what is left of it, so the number of attempts it made can
  be read off. The result is \<open>Inl\<close> for an exception that leaves \<^verbatim>\<open>connect\<close> and
  \<open>Inr\<close> for the returned boolean. The two tasks that a successful \<^verbatim>\<open>connect\<close>
  creates are the loops \<open>message_sender\<close> and \<open>message_receiver_iteration\<close>.

  The handler \<^verbatim>\<open>except Exception\<close> counts and returns \<^verbatim>\<open>False\<close>; a
  \<^verbatim>\<open>CancelledError\<close> of the attempt is not caught and reaches the caller. For a protocol
  that is no member of the enumeration none of the three branches is taken, so no attempt
  is made; \<^verbatim>\<open>self.connected = True\<close> is executed, and the log line's
  \<^verbatim>\<open>self.protocol.value\<close> then raises \<^verbatim>\<open>AttributeError\<close>, which the handler catches.
\<close>

definition connect ::
  "bridge \<Rightarrow> conn_attempt stream \<Rightarrow> (exn + bool) \<times> bridge \<times> conn_attempt stream" where
  "connect s net =
     (case protocol s of
        Member p \<Rightarrow>
          (case (case p of
                   WEBSOCKET \<Rightarrow> connect_websocket s (shd net)
                 | REDIS \<Rightarrow> connect_redis s (shd net)
                 | TCP \<Rightarrow> connect_tcp s (shd net)) of
             Inr s1 \<Rightarrow> (Inr True, s1\<lparr>connected := True\<rparr>, stl net)
           | Inl e \<Rightarrow>
               (if is_Exception e
                then (Inr False, s\<lparr>connection_errors := connection_errors s + 1\<rparr>, stl net)
                else (Inl e, s, stl net)))
      | NonMember v \<Rightarrow>
          (let s1 = s\<lparr>connected := True\<rparr>
           in (Inr False, s1\<lparr>connection_errors := connection_errors s1 + 1\<rparr>, net)))"

subsection \<open>The sender\<close>

text \<open>What a write on the transport does: it goes through, or it raises.\<close>

datatype write_outcome = WriteOk | WriteRaises exn

definition send_websocket :: "bridge \<Rightarrow> message \<Rightarrow> write_outcome \<Rightarrow> exn + bridge" where
  "send_websocket s message w =
     (case websocket s of
        None \<Rightarrow> Inr s
      | Some h \<Rightarrow>
          (case w of
             WriteRaises e \<Rightarrow> Inl e
           | WriteOk \<Rightarrow> Inr (s\<lparr>wire := wire s @ [WsFrame message]\<rparr>)))"

text \<open>\<^verbatim>\<open>message['type']\<close> raises \<^verbatim>\<open>KeyError\<close> when the message has no type.\<close>

definition send_redis :: "bridge \<Rightarrow> message \<Rightarrow> write_outcome \<Rightarrow> exn + bridge" where
  "send_redis s message w =
     (case redis_client s of
        None \<Rightarrow> Inr s
      | Some h \<Rightarrow>
          (case map_of message ''type'' of
             None \<Rightarrow> Inl KeyError
           | Some t \<Rightarrow>
               (case w of
                  WriteRaises e \<Rightarrow> Inl e
                | WriteOk \<Rightarrow> Inr (s\<lparr>wire := wire s @ [RedisPublish t message]\<rparr>))))"

definition send_tcp :: "bridge \<Rightarrow> message \<Rightarrow> write_outcome \<Rightarrow> exn + bridge" where
  "send_tcp s message w =
     (case tcp_writer s of
        None \<Rightarrow> Inr s
      | Some h \<Rightarrow>
          (case w of
             WriteRaises e \<Rightarrow> Inl e
           | WriteOk \<Rightarrow> Inr (s\<lparr>wire := wire s @ [TcpLine message]\<rparr>)))"

text \<open>
  The protocol dispatch of the sender: for a protocol that is no member of the
  enumeration none of the branches is taken and nothing is written.
\<close>

definition send_by_protocol :: "bridge \<Rightarrow> message \<Rightarrow> write_outcome \<Rightarrow> exn + bridge" where
  "send_by_protocol s message w =
     (case protocol s of
        Member WEBSOCKET \<Rightarrow> send_websocket s message w
      | Member REDIS \<Rightarrow> send_redis s message w
      | Member TCP \<Rightarrow> send_tcp s message w
      | NonMember v \<Rightarrow> Inr s)"

text \<open>
  One pass through the body of the \<^verbatim>\<open>while self.connected\<close> loop of
  \<^verbatim>\<open>_message_sender\<close>. With an empty queue the \<^verbatim>\<open>get\<close> times out after a second and
  the loop continues. Otherwise the head of the queue is taken off and written, and the
  message that was taken off is never put back. The write is inside the same
  \<^verbatim>\<open>try\<close> as the \<^verbatim>\<open>get\<close>, so an exception of the write meets the handlers in their
  order: \<^verbatim>\<open>except asyncio.TimeoutError: continue\<close> takes a \<^verbatim>\<open>TimeoutError\<close> without
  counting it; \<^verbatim>\<open>except Exception\<close> takes every other \<^verbatim>\<open>Exception\<close>, counts it and
  sleeps; a \<^verbatim>\<open>CancelledError\<close> is taken by neither and leaves the loop. The result is
  \<open>Inr ()\<close> when the loop goes on and \<open>Inl e\<close> when the exception \<open>e\<close> leaves it.
\<close>

definition sender_iteration :: "bridge \<Rightarrow> write_outcome \<Rightarrow> (exn + unit) \<times> bridge" where
  "sender_iteration s w =
     (case outbound_queue s of
        [] \<Rightarrow> (Inr (), s)
      | message # rest \<Rightarrow>
          (let s1 = s\<lparr>outbound_queue := rest\<rparr> in
           case send_by_protocol s1 message w of
             Inr s2 \<Rightarrow> (Inr (), s2\<lparr>messages_sent := messages_sent s2 + 1\<rparr>)
           | Inl e \<Rightarrow>
               (if e = TimeoutError then (Inr (), s1)
                else except_Exception e s1
                       (s1\<lparr>connection_errors := connection_errors s1 + 1\<rparr>))))"

text \<open>
  The loop itself, run for as many passes as there are outcomes in the list. It ends
  \<open>Exited\<close> when the test \<^verbatim>\<open>self.connected\<close> failed, \<open>Raised e\<close> when the exception
  \<open>e\<close> left the body and ended the task, and \<open>Running\<close> when the test still holds
  after the last pass.
\<close>

datatype loop_status = Running | Exited | Raised exn

fun message_sender :: "bridge \<Rightarrow> write_outcome list \<Rightarrow> bridge \<times> loop_status" where
  "message_sender s [] = (s, if connected s then Running else Exited)"
| "message_sender s (w # ws) =
     (if connected s then
        (case sender_iteration s w of
           (Inr u, s') \<Rightarrow> message_sender s' ws
         | (Inl e, s') \<Rightarrow> (s', Raised e))
      else (s, Exited))"

subsection \<open>Producers and the sender, interleaved\<close>

text \<open>
  The tasks share one event loop, and between two suspension points a task runs alone. A
  run of the bridge is therefore a sequence of events: a producer puts a message on the
  queue through \<^verbatim>\<open>_send_message\<close>, or the sender task makes one pass of its loop. The
  flag beside the bridge says whether the sender task is still in its loop: it leaves the
  loop when the test \<^verbatim>\<open>self.connected\<close> fails or an exception leaves the body, and
  makes no pass after that.
\<close>

datatype event = Produce message | SenderPass write_outcome

fun step :: "bool \<times> bridge \<Rightarrow> event \<Rightarrow> bool \<times> bridge" where
  "step (in_loop, s) (Produce m) = (in_loop, snd (send_message s m))"
| "step (in_loop, s) (SenderPass w) =
     (if in_loop \<and> connected s then
        (case sender_iteration s w of
           (Inr u, s') \<Rightarrow> (True, s')
         | (Inl e, s') \<Rightarrow> (False, s'))
      else (False, s))"

fun run_task :: "bool \<times> bridge \<Rightarrow> event list \<Rightarrow> bool \<times> bridge" where
  "run_task c [] = c"
| "run_task c (e # es) = run_task (step c e) es"

text \<open>A run that starts with the sender task in its loop, and the bridge it ends with.\<close>

definition run :: "bridge \<Rightarrow> event list \<Rightarrow> bridge" where
  "run s evs = snd (run_task (True, s) evs)"

text \<open>The messages that the producers of a run put on the queue, in the order of the puts.\<close>

fun produced :: "event list \<Rightarrow> message list" where
  "produced [] = []"
| "produced (Produce m # es) = m # produced es"
| "produced (SenderPass w # es) = produced es"

text \<open>The writes that the transport received between an earlier and a later state.\<close>

definition written_since :: "bridge \<Rightarrow> bridge \<Rightarrow> wire_write list" where
  "written_since s s' = drop (length (wire s)) (wire s')"

section \<open>The orchestrator\<close>

text \<open>
  \<^verbatim>\<open>config/settings.py\<close> and the part of \<^verbatim>\<open>main.py\<close> that scans for MEV opportunities.
\<close>

record MEVConfig =
  min_confidence :: real
  min_profit_threshold :: real
  gas_price_multiplier :: real
  block_time_estimate :: int
  opportunity_types :: "string list"

text \<open>The defaults of the dataclass.\<close>

definition MEVConfig_default :: MEVConfig where
  "MEVConfig_default =
     \<lparr>min_confidence = 0.8, min_profit_threshold = 0.01, gas_price_multiplier = 1.2,
      block_time_estimate = 12,
      opportunity_types = [''sandwich'', ''arbitrage'', ''liquidation'']\<rparr>"

text \<open>Of \<^verbatim>\<open>Settings\<close>, the section that the scan reads.\<close>

record Settings =
  mev :: MEVConfig

text \<open>The dictionary \<^verbatim>\<open>self.metrics\<close>, with its fixed keys as fields.\<close>

record system_metrics =
  predictions_made :: int
  mev_opportunities_detected :: int
  accuracy_score :: real
  uptime_seconds :: int
  last_prediction_time :: "int option"

record AIPredictorSystem =
  settings :: Settings
  running :: bool
  rust_bridge :: bridge
  metrics :: system_metrics

text \<open>
  The \<^verbatim>\<open>for\<close> loop of \<^verbatim>\<open>mev_detection_loop\<close> over the detected opportunities. Each
  opportunity comes with the clock reading that \<^verbatim>\<open>send_mev_opportunity\<close> would take for
  its envelope.
\<close>

fun mev_send_opportunities ::
  "AIPredictorSystem \<Rightarrow> (int \<times> MEVOpportunityMessage) list \<Rightarrow> AIPredictorSystem" where
  "mev_send_opportunities sys [] = sys"
| "mev_send_opportunities sys ((now_ms, opportunity) # rest) =
     (if confidence opportunity > min_confidence (mev (settings sys)) then
        (let (success, b) = send_mev_opportunity (rust_bridge sys) opportunity now_ms;
             m = metrics sys
         in mev_send_opportunities
              (sys\<lparr>rust_bridge := b,
                   metrics := m\<lparr>mev_opportunities_detected :=
                                 mev_opportunities_detected m + 1\<rparr>\<rparr>) rest)
      else mev_send_opportunities sys rest)"

text \<open>
  What the collaborators give to one cycle: no mempool data, an exception of the
  collector or the detector (logged, followed by a sleep), or the detected opportunities.
\<close>

datatype scan = NoMempoolData | ScanRaises exn | Detected "(int \<times> MEVOpportunityMessage) list"

text \<open>
  One pass through the body of the \<^verbatim>\<open>while self.running\<close> loop. The result is
  \<open>Inr ()\<close> when the loop goes on and \<open>Inl e\<close> when the exception \<open>e\<close> is not caught by
  \<^verbatim>\<open>except Exception\<close> and leaves the loop.
\<close>

definition mev_detection_iteration ::
  "AIPredictorSystem \<Rightarrow> scan \<Rightarrow> (exn + unit) \<times> AIPredictorSystem" where
  "mev_detection_iteration sys sc =
     (case sc of
        NoMempoolData \<Rightarrow> (Inr (), sys)
      | ScanRaises e \<Rightarrow> except_Exception e sys sys
      | Detected opportunities \<Rightarrow> (Inr (), mev_send_opportunities sys opportunities))"

section \<open>Notions of the specification and example inputs\<close>

text \<open>
  The specification's envelope: a message with the three top-level fields
  \<^verbatim>\<open>type\<close>, \<^verbatim>\<open>data\<close> and \<^verbatim>\<open>timestamp\<close>.
\<close>

definition envelope_complete :: "message \<Rightarrow> bool" where
  "envelope_complete m =
     (map_of m ''type'' \<noteq> None \<and> map_of m ''data'' \<noteq> None \<and> map_of m ''timestamp'' \<noteq> None)"

text \<open>
  The connection object that the sender writes to, for the protocol of the bridge; there
  is none for a protocol that is no member of the enumeration.
\<close>

definition transport_handle :: "bridge \<Rightarrow> handle option" where
  "transport_handle s =
     (case protocol s of
        Member WEBSOCKET \<Rightarrow> websocket s
      | Member REDIS \<Rightarrow> redis_client s
      | Member TCP \<Rightarrow> tcp_writer s
      | NonMember v \<Rightarrow> None)"

text \<open>
  The write failures that the sender loop counts: the exceptions that its handler
  \<^verbatim>\<open>except Exception\<close> receives, which are those of class \<^verbatim>\<open>Exception\<close> that the
  handler \<^verbatim>\<open>except asyncio.TimeoutError\<close> before it has not taken.
\<close>

definition counted_failure :: "exn \<Rightarrow> bool" where
  "counted_failure e = (is_Exception e \<and> e \<noteq> TimeoutError)"

text \<open>What a write of a message that goes through leaves on the wire.\<close>

definition wire_form :: "CommunicationProtocol \<Rightarrow> message \<Rightarrow> wire_write" where
  "wire_form p m =
     (case p of
        WEBSOCKET \<Rightarrow> WsFrame m
      | REDIS \<Rightarrow> RedisPublish (dict_get m ''type'') m
      | TCP \<Rightarrow> TcpLine m)"

text \<open>A bridge as \<^verbatim>\<open>RustBridge()\<close> constructs it, and the same bridge once connected.\<close>

definition example_bridge :: bridge where
  "example_bridge = RustBridge_init ''localhost'' 8080 (Member WEBSOCKET)"

definition connected_bridge :: bridge where
  "connected_bridge = example_bridge\<lparr>connected := True, websocket := Some (Handle 1)\<rparr>"

text \<open>Heartbeat messages that differ in their clock reading.\<close>

definition beat :: "int \<Rightarrow> message" where
  "beat n = heartbeat_message example_bridge n"

text \<open>A network that refuses the first connection attempt and accepts every later one.\<close>

definition failing_network :: "conn_attempt stream" where
  "failing_network = ConnRaises ConnectionError ## sconst (ConnOk (Handle 1))"

text \<open>
  The bridge that \<^verbatim>\<open>main.py\<close> constructs from the default settings, whose protocol is
  the string \<^verbatim>\<open>"websocket"\<close>.
\<close>

definition main_bridge :: bridge where
  "main_bridge = RustBridge_init ''localhost'' 8080 (NonMember (PStr ''websocket''))"

text \<open>
  An opportunity as \<^verbatim>\<open>create_mev_opportunity_message\<close> fills it in, with the given
  confidence, and the system that \<^verbatim>\<open>main.py\<close> constructs from the default settings.
\<close>

definition example_opportunity :: "real \<Rightarrow> MEVOpportunityMessage" where
  "example_opportunity c =
     \<lparr>symbol = ''ETH/USDT'', opportunity_type = ''arbitrage'', profit_potential = 0.05,
      gas_cost_estimate = 0.01, confidence = c, time_sensitive = True, priority = 5,
      mempool_position = 0, block_prediction = 0, execution_strategy = ''fast'',
      timestamp = 1700000000000\<rparr>"

definition example_system :: AIPredictorSystem where
  "example_system =
     \<lparr>settings = \<lparr>mev = MEVConfig_default\<rparr>, running = True,
      rust_bridge = main_bridge,
      metrics = \<lparr>predictions_made = 0, mev_opportunities_detected = 0, accuracy_score = 0,
                 uptime_seconds = 0, last_prediction_time = None\<rparr>\<rparr>"

text \<open>
  A run in which producers and the sender alternate; the write of the second pass raises.
\<close>

definition interleaved_run :: "event list" where
  "interleaved_run =
     [Produce (beat 2), SenderPass WriteOk, Produce (beat 3),
      SenderPass (WriteRaises OSError), SenderPass WriteOk]"

text \<open>
  Two feedback requests that start within the same second of the clock, the second while
  the first is still waiting, and a response of the counterpart to their request id.
\<close>

definition first_request :: "suspended \<times> bridge" where
  "first_request = get_performance_feedback_start example_bridge 1700000000 1700000000100"

definition second_request :: "suspended \<times> bridge" where
  "second_request = get_performance_feedback_start (snd first_request) 1700000000 1700000000900"

definition example_response :: message where
  "example_response =
     [(''type'', PStr ''feedback_response''),
      (''request_id'', PStr (feedback_request_id 1700000000)),
      (''data'', PDict [(''accuracy'', PFloat 0.9)])]"

text \<open>A connected bridge of the Redis variant.\<close>

definition redis_bridge :: bridge where
  "redis_bridge =
     (RustBridge_init ''localhost'' 6379 (Member REDIS))\<lparr>connected := True, redis_client := Some (Handle 1)\<rparr>"

section \<open>Enqueueing never fails\<close>

lemma send_message_eq:
  "send_message s m = (True, s\<lparr>outbound_queue := outbound_queue s @ [m]\<rparr>)"
  by (simp add: send_message_def queue_put_def)

lemma start_eq:
  "get_performance_feedback_start s now_s now_ms =
     (Waiting (feedback_request_id now_s) (length (future_heap s)),
      s\<lparr>future_heap := future_heap s @ [Pending],
        response_futures :=
          AList.update (feedback_request_id now_s) (length (future_heap s)) (response_futures s),
        outbound_queue := outbound_queue s @ [request_feedback_message now_s now_ms]\<rparr>)"
  by (simp add: get_performance_feedback_start_def send_message_eq Let_def)

text \<open>
  C10. In every state of the bridge, connected or not, \<^verbatim>\<open>send_prediction\<close>,
  \<^verbatim>\<open>send_mev_opportunity\<close>, \<^verbatim>\<open>send_metrics\<close> and \<^verbatim>\<open>send_heartbeat\<close> return
  \<^verbatim>\<open>True\<close>, and all they do is append their message to the outbound queue: nothing is
  written to the transport and no counter moves, so the result says that the message was
  queued, not that it was delivered.
\<close>

theorem send_operations_return_True:
  "send_prediction s prediction now_ms =
     (True, s\<lparr>outbound_queue := outbound_queue s @ [prediction_message prediction now_ms]\<rparr>)
   \<and> send_mev_opportunity s opportunity now_ms =
     (True, s\<lparr>outbound_queue := outbound_queue s @ [mev_opportunity_message opportunity now_ms]\<rparr>)
   \<and> send_metrics s payload now_ms =
     (True, s\<lparr>outbound_queue := outbound_queue s @ [metrics_message payload now_ms]\<rparr>)
   \<and> send_heartbeat s now_ms =
     (True, s\<lparr>outbound_queue := outbound_queue s @ [heartbeat_message s now_ms]\<rparr>)"
  by (simp add: send_prediction_def send_mev_opportunity_def send_metrics_def
      send_heartbeat_def send_message_eq)

section \<open>The fields of the messages\<close>

text \<open>
  C6, as the specification has it, fails: the message that \<^verbatim>\<open>send_heartbeat\<close> puts on
  the queue has no top-level \<^verbatim>\<open>timestamp\<close> (its clock reading is inside \<^verbatim>\<open>data\<close>),
  and the request of \<^verbatim>\<open>get_performance_feedback\<close> has no \<^verbatim>\<open>data\<close>.
\<close>

theorem heartbeat_envelope_incomplete:
  "outbound_queue (snd (send_heartbeat example_bridge 1700000000000)) =
     [heartbeat_message example_bridge 1700000000000]
   \<and> \<not> envelope_complete (heartbeat_message example_bridge 1700000000000)
   \<and> outbound_queue (snd (get_performance_feedback_start example_bridge 1700000000 1700000000000)) =
     [request_feedback_message 1700000000 1700000000000]
   \<and> \<not> envelope_complete (request_feedback_message 1700000000 1700000000000)"
  by (simp add: send_heartbeat_def send_message_eq start_eq envelope_complete_def
      heartbeat_message_def request_feedback_message_def example_bridge_def RustBridge_init_def)

text \<open>
  C6, amended. The messages that \<^verbatim>\<open>send_prediction\<close>, \<^verbatim>\<open>send_mev_opportunity\<close> and
  \<^verbatim>\<open>send_metrics\<close> put on the queue have the three top-level fields \<^verbatim>\<open>type\<close>,
  \<^verbatim>\<open>data\<close> and \<^verbatim>\<open>timestamp\<close>. The heartbeat has exactly \<^verbatim>\<open>type\<close> and \<^verbatim>\<open>data\<close>,
  and the feedback request has exactly \<^verbatim>\<open>type\<close>, \<^verbatim>\<open>request_id\<close> and
  \<^verbatim>\<open>timestamp\<close>.
\<close>

theorem envelope_fields_of_producers:
  "envelope_complete (last (outbound_queue (snd (send_prediction s prediction now_ms))))
   \<and> envelope_complete (last (outbound_queue (snd (send_mev_opportunity s opportunity now_ms))))
   \<and> envelope_complete (last (outbound_queue (snd (send_metrics s payload now_ms))))
   \<and> map fst (last (outbound_queue (snd (send_heartbeat s now_ms)))) = [''type'', ''data'']
   \<and> map fst (last (outbound_queue (snd (get_performance_feedback_start s now_s now_ms)))) =
       [''type'', ''request_id'', ''timestamp'']"
  by (simp add: send_prediction_def send_mev_opportunity_def send_metrics_def
      send_heartbeat_def send_message_eq start_eq envelope_complete_def
      prediction_message_def mev_opportunity_message_def metrics_message_def
      heartbeat_message_def request_feedback_message_def)

section \<open>The status request\<close>

text \<open>
  C3. A received message of type \<^verbatim>\<open>status_request\<close> makes the handler put exactly one
  message on the queue: a \<^verbatim>\<open>status_response\<close> whose data has \<^verbatim>\<open>connected\<close> true and
  the values that \<^verbatim>\<open>messages_sent\<close>, \<^verbatim>\<open>messages_received\<close> and
  \<^verbatim>\<open>connection_errors\<close> have when the handler runs. Nothing else changes and the handler
  does not raise.
\<close>

theorem status_request_enqueues_status_response:
  assumes "dict_get message ''type'' = PStr ''status_request''"
  shows "handle_received_message s message now_ms =
           (Inr (), s\<lparr>outbound_queue := outbound_queue s @ [status_response_message s now_ms]\<rparr>)
         \<and> dict_get (status_response_message s now_ms) ''type'' = PStr ''status_response''
         \<and> dict_get (status_response_message s now_ms) ''data'' =
             PDict [(''status'', PStr ''running''),
                    (''connected'', PBool True),
                    (''messages_sent'', PInt (messages_sent s)),
                    (''messages_received'', PInt (messages_received s)),
                    (''connection_errors'', PInt (connection_errors s))]"
  using assms
  by (simp add: handle_received_message_def send_message_eq status_response_message_def
      dict_get_def)

theorem status_request_witness:
  "dict_get [(''type'', PStr ''status_request'')] ''type'' = PStr ''status_request''
   \<and> outbound_queue (snd (handle_received_message
        (example_bridge\<lparr>messages_sent := 7, messages_received := 4, connection_errors := 2\<rparr>)
        [(''type'', PStr ''status_request'')] 1700000000000)) =
      [[(''type'', PStr ''status_response''),
        (''data'', PDict [(''status'', PStr ''running''),
                    (''connected'', PBool True),
                    (''messages_sent'', PInt 7),
                    (''messages_received'', PInt 4),
                    (''connection_errors'', PInt 2)]),
        (''timestamp'', PInt 1700000000000)]]"
proof -
  have h: "dict_get [(''type'', PStr ''status_request'')] ''type'' = PStr ''status_request''"
    by (simp add: dict_get_def)
  show ?thesis
    using h status_request_enqueues_status_response [OF h,
        of "example_bridge\<lparr>messages_sent := 7, messages_received := 4, connection_errors := 2\<rparr>"
           1700000000000]
    by (simp add: status_response_message_def example_bridge_def RustBridge_init_def)
qed

section \<open>A failed connection attempt\<close>

text \<open>
  C4, as the specification has it, fails: when the attempt raises, \<^verbatim>\<open>connect\<close> catches
  the exception and returns \<^verbatim>\<open>False\<close>; no \<^verbatim>\<open>ConnectionError\<close> reaches the caller.
\<close>

theorem connect_failure_returns_False:
  "fst (connect example_bridge failing_network) = Inr False
   \<and> fst (connect example_bridge failing_network) \<noteq> Inl ConnectionError"
  by (simp add: connect_def connect_websocket_def failing_network_def example_bridge_def
      RustBridge_init_def is_Exception_def)

text \<open>
  C4, amended. For each of the three protocol variants, when the connection attempt
  raises an exception of class \<^verbatim>\<open>Exception\<close>, \<^verbatim>\<open>connect\<close> returns \<^verbatim>\<open>False\<close> to its
  caller instead of raising, adds exactly one to \<^verbatim>\<open>connection_errors\<close>, changes nothing
  else, and has made that one attempt only: the rest of the network's answers is
  untouched, also when the next attempt would have succeeded.
\<close>

theorem connect_failure_counted_once:
  assumes "protocol s = Member p" and "shd net = ConnRaises e" and "is_Exception e"
  shows "connect s net =
           (Inr False, s\<lparr>connection_errors := connection_errors s + 1\<rparr>, stl net)"
  using assms
  by (cases p)
     (simp_all add: connect_def connect_websocket_def connect_redis_def connect_tcp_def)

theorem connect_failure_witness:
  "protocol example_bridge = Member WEBSOCKET
   \<and> shd failing_network = ConnRaises ConnectionError
   \<and> is_Exception ConnectionError
   \<and> connect example_bridge failing_network =
       (Inr False, example_bridge\<lparr>connection_errors := 1\<rparr>, sconst (ConnOk (Handle 1)))
   \<and> connected (fst (snd (connect example_bridge failing_network))) = False"
proof -
  have h1: "protocol example_bridge = Member WEBSOCKET"
    by (simp add: example_bridge_def RustBridge_init_def)
  have h2: "shd failing_network = ConnRaises ConnectionError"
    by (simp add: failing_network_def)
  have h3: "is_Exception ConnectionError"
    by (simp add: is_Exception_def)
  show ?thesis
    using h1 h2 h3 connect_failure_counted_once [OF h1 h2 h3]
    by (simp add: failing_network_def example_bridge_def RustBridge_init_def)
qed

text \<open>
  The two cases that the amended statement leaves aside. A cancellation that arrives
  during the attempt is not caught: it reaches the caller and nothing is counted.
\<close>

lemma connect_cancelled:
  assumes "protocol s = Member p" and "shd net = ConnRaises CancelledError"
  shows "connect s net = (Inl CancelledError, s, stl net)"
  using assms
  by (cases p)
     (simp_all add: connect_def connect_websocket_def connect_redis_def connect_tcp_def
        is_Exception_def)

text \<open>
  With a protocol that is no member of the enumeration, as \<^verbatim>\<open>main.py\<close> passes it,
  \<^verbatim>\<open>connect\<close> makes no attempt, returns \<^verbatim>\<open>False\<close>, counts one error, and leaves
  \<^verbatim>\<open>connected\<close> set.
\<close>

lemma connect_non_member:
  "connect main_bridge net =
     (Inr False, main_bridge\<lparr>connected := True, connection_errors := 1\<rparr>, net)"
  by (simp add: connect_def main_bridge_def RustBridge_init_def)

section \<open>The confidence threshold of the MEV scan\<close>

text \<open>
  C9. With the threshold \<^verbatim>\<open>min_confidence\<close> at 0.8, a cycle that detects one opportunity
  of confidence 0.75 leaves the system as it was (nothing is put on the bridge's queue,
  the counter keeps its value), and a cycle that detects one of confidence 0.85 puts its
  \<^verbatim>\<open>mev_opportunity\<close> message on the bridge's queue and adds exactly one to
  \<^verbatim>\<open>mev_opportunities_detected\<close>. Both cycles end without an exception.
\<close>

theorem mev_confidence_threshold:
  assumes "min_confidence (mev (settings sys)) = 0.8"
    and "confidence low = 0.75"
    and "confidence high = 0.85"
  shows "mev_detection_iteration sys (Detected [(now_ms, low)]) = (Inr (), sys)
         \<and> mev_detection_iteration sys (Detected [(now_ms, high)]) =
             (Inr (),
              sys\<lparr>rust_bridge := (rust_bridge sys)\<lparr>outbound_queue :=
                     outbound_queue (rust_bridge sys) @ [mev_opportunity_message high now_ms]\<rparr>,
                  metrics := (metrics sys)\<lparr>mev_opportunities_detected :=
                     mev_opportunities_detected (metrics sys) + 1\<rparr>\<rparr>)"
  using assms
  by (simp add: mev_detection_iteration_def send_mev_opportunity_def send_message_eq Let_def)

theorem mev_confidence_threshold_witness:
  "min_confidence (mev (settings example_system)) = 0.8
   \<and> confidence (example_opportunity 0.75) = 0.75
   \<and> confidence (example_opportunity 0.85) = 0.85
   \<and> mev_detection_iteration example_system (Detected [(1700000000000, example_opportunity 0.75)])
       = (Inr (), example_system)
   \<and> outbound_queue (rust_bridge (snd (mev_detection_iteration example_system
         (Detected [(1700000000000, example_opportunity 0.85)])))) =
       [mev_opportunity_message (example_opportunity 0.85) 1700000000000]
   \<and> mev_opportunities_detected (metrics (snd (mev_detection_iteration example_system
         (Detected [(1700000000000, example_opportunity 0.85)])))) = 1"
proof -
  have h1: "min_confidence (mev (settings example_system)) = 0.8"
    by (simp add: example_system_def MEVConfig_default_def)
  have h2: "confidence (example_opportunity 0.75) = 0.75"
    by (simp add: example_opportunity_def)
  have h3: "confidence (example_opportunity 0.85) = 0.85"
    by (simp add: example_opportunity_def)
  show ?thesis
    using h1 h2 h3 mev_confidence_threshold [OF h1 h2 h3, of 1700000000000]
    by (simp add: example_system_def main_bridge_def RustBridge_init_def)
qed

section \<open>The order of the writes\<close>

lemma sender_iteration_effect:
  "snd (sender_iteration s w) = s
   \<or> (\<exists>m rest. outbound_queue s = m # rest
        \<and> outbound_queue (snd (sender_iteration s w)) = rest
        \<and> (wire (snd (sender_iteration s w)) = wire s
           \<or> (\<exists>ww. wire (snd (sender_iteration s w)) = wire s @ [ww]
                 \<and> written_message ww = m)))"
proof (cases "outbound_queue s")
  case Nil
  then show ?thesis
    by (simp add: sender_iteration_def)
next
  case (Cons m rest)
  let ?s1 = "s\<lparr>outbound_queue := rest\<rparr>"
  have sent: "(\<exists>e. send_by_protocol ?s1 m w = Inl e)
      \<or> send_by_protocol ?s1 m w = Inr ?s1
      \<or> (\<exists>ww. send_by_protocol ?s1 m w = Inr (?s1\<lparr>wire := wire s @ [ww]\<rparr>)
            \<and> written_message ww = m)"
    by (auto simp: send_by_protocol_def send_websocket_def send_redis_def send_tcp_def
        split: protocol_attr.splits CommunicationProtocol.splits option.splits
          write_outcome.splits)
  then consider (raised) e where "send_by_protocol ?s1 m w = Inl e"
    | (silent) "send_by_protocol ?s1 m w = Inr ?s1"
    | (written) ww where "send_by_protocol ?s1 m w = Inr (?s1\<lparr>wire := wire s @ [ww]\<rparr>)"
        "written_message ww = m"
    by blast
  then show ?thesis
  proof cases
    case raised
    with Cons show ?thesis
      by (simp add: sender_iteration_def except_Exception_def Let_def)
  next
    case silent
    with Cons show ?thesis
      by (simp add: sender_iteration_def Let_def)
  next
    case written
    with Cons show ?thesis
      by (simp add: sender_iteration_def Let_def)
  qed
qed

lemma step_effect:
  "\<exists>pre. wire (snd (step (a, s) e)) = wire s @ pre
      \<and> (\<forall>zs. subseq zs (outbound_queue (snd (step (a, s) e)) @ produced evs)
             \<longrightarrow> subseq (map written_message pre @ zs)
                   (outbound_queue s @ produced (e # evs)))"
proof (cases e)
  case (Produce m)
  then show ?thesis
    by (simp add: send_message_eq)
next
  case (SenderPass w)
  show ?thesis
  proof (cases "a \<and> connected s")
    case False
    with SenderPass show ?thesis by auto
  next
    case True
    then have st: "snd (step (a, s) e) = snd (sender_iteration s w)"
      using SenderPass by (simp split: prod.splits sum.splits)
    from sender_iteration_effect [of s w]
    consider (same) "snd (sender_iteration s w) = s"
      | (dropped) m rest where "outbound_queue s = m # rest"
          "outbound_queue (snd (sender_iteration s w)) = rest"
          "wire (snd (sender_iteration s w)) = wire s"
      | (written) m rest ww where "outbound_queue s = m # rest"
          "outbound_queue (snd (sender_iteration s w)) = rest"
          "wire (snd (sender_iteration s w)) = wire s @ [ww]" "written_message ww = m"
      by blast
    then show ?thesis
    proof cases
      case same
      with SenderPass show ?thesis unfolding st by simp
    next
      case dropped
      with SenderPass show ?thesis unfolding st by auto
    next
      case written
      with SenderPass show ?thesis unfolding st by simp
    qed
  qed
qed

lemma run_task_wire_subseq:
  "\<exists>ws. wire (snd (run_task (a, s) evs)) = wire s @ ws
        \<and> subseq (map written_message ws) (outbound_queue s @ produced evs)"
proof (induction evs arbitrary: a s)
  case Nil
  show ?case by simp
next
  case (Cons e evs)
  obtain a' s' where st: "step (a, s) e = (a', s')"
    by (cases "step (a, s) e")
  obtain ws where ws: "wire (snd (run_task (a', s') evs)) = wire s' @ ws"
    and sub: "subseq (map written_message ws) (outbound_queue s' @ produced evs)"
    using Cons.IH [of a' s'] by blast
  obtain pre where pre: "wire s' = wire s @ pre"
    and emb: "subseq (map written_message pre @ map written_message ws)
                (outbound_queue s @ produced (e # evs))"
    using step_effect [of a s e evs] sub st by auto
  have "wire (snd (run_task (a, s) (e # evs))) = wire s @ (pre @ ws)"
    using ws pre st by simp
  moreover have "subseq (map written_message (pre @ ws)) (outbound_queue s @ produced (e # evs))"
    using emb by simp
  ultimately show ?case by blast
qed

lemma run_written_since:
  "wire (run s evs) = wire s @ written_since s (run s evs)
   \<and> subseq (map written_message (written_since s (run s evs)))
        (outbound_queue s @ produced evs)"
  using run_task_wire_subseq [of True s evs] by (auto simp: written_since_def run_def)

lemma pair_in_some_order:
  "a \<in> set xs \<Longrightarrow> b \<in> set xs \<Longrightarrow> a \<noteq> b \<Longrightarrow> subseq [a, b] xs \<or> subseq [b, a] xs"
  by (induction xs) (auto simp: subseq_singleton_left)

lemma subseq_pair_mem:
  "subseq [a, b] ys \<Longrightarrow> a \<in> set ys \<and> b \<in> set ys"
  by (induction ys) (auto simp: subseq_singleton_left split: if_splits)

lemma distinct_pair_one_order:
  "distinct ys \<Longrightarrow> subseq [a, b] ys \<Longrightarrow> \<not> subseq [b, a] ys"
  by (induction ys) (auto simp: subseq_singleton_left dest: subseq_pair_mem split: if_splits)

lemma subseq_keeps_pair_order:
  assumes "subseq xs ys" and "distinct ys" and "subseq [a, b] ys"
    and "a \<in> set xs" and "b \<in> set xs"
  shows "subseq [a, b] xs"
proof -
  have "a \<noteq> b"
    using assms(2,3)
    by (induction ys) (auto simp: subseq_singleton_left dest: subseq_pair_mem split: if_splits)
  then have "subseq [a, b] xs \<or> subseq [b, a] xs"
    using pair_in_some_order assms(4,5) by metis
  moreover have "\<not> subseq [b, a] xs"
    using distinct_pair_one_order [OF assms(2,3)] assms(1) subseq_order.trans by blast
  ultimately show ?thesis by blast
qed

text \<open>
  C1. In every run of producers and the sender loop, the messages that reach the transport
  are a subsequence of the messages in the order in which they were put on the queue:
  the sender takes them off the head of the queue one at a time and writes each before it
  takes the next. In particular, for envelopes that can be told apart, if \<open>A\<close> was
  enqueued before \<open>B\<close> and both were written, then \<open>A\<close> was written before \<open>B\<close>.
  Between taking a message off and writing it only producers can run, and they append.
\<close>

theorem sender_writes_in_enqueue_order:
  "wire (run s evs) = wire s @ written_since s (run s evs)
   \<and> subseq (map written_message (written_since s (run s evs)))
        (outbound_queue s @ produced evs)
   \<and> (distinct (outbound_queue s @ produced evs)
        \<longrightarrow> subseq [A, B] (outbound_queue s @ produced evs)
        \<longrightarrow> A \<in> set (map written_message (written_since s (run s evs)))
        \<longrightarrow> B \<in> set (map written_message (written_since s (run s evs)))
        \<longrightarrow> subseq [A, B] (map written_message (written_since s (run s evs))))"
proof -
  let ?W = "map written_message (written_since s (run s evs))"
  let ?E = "outbound_queue s @ produced evs"
  have 1: "wire (run s evs) = wire s @ written_since s (run s evs)"
    using run_written_since [of s evs] by (rule conjunct1)
  have 2: "subseq ?W ?E"
    using run_written_since [of s evs] by (rule conjunct2)
  have 3: "distinct ?E \<longrightarrow> subseq [A, B] ?E \<longrightarrow> A \<in> set ?W \<longrightarrow> B \<in> set ?W
             \<longrightarrow> subseq [A, B] ?W"
  proof (intro impI)
    assume "distinct ?E" "subseq [A, B] ?E" "A \<in> set ?W" "B \<in> set ?W"
    then show "subseq [A, B] ?W"
      by (rule subseq_keeps_pair_order [OF 2])
  qed
  from 1 2 3 show ?thesis
    by (intro conjI)
qed

lemma beat_inject: "beat m = beat n \<longleftrightarrow> m = n"
  by (simp add: beat_def heartbeat_message_def)

theorem sender_order_witness:
  "distinct (outbound_queue (connected_bridge\<lparr>outbound_queue := [beat 1]\<rparr>)
      @ produced interleaved_run)
   \<and> subseq [beat 1, beat 3]
        (outbound_queue (connected_bridge\<lparr>outbound_queue := [beat 1]\<rparr>)
           @ produced interleaved_run)
   \<and> map written_message
        (written_since (connected_bridge\<lparr>outbound_queue := [beat 1]\<rparr>)
           (run (connected_bridge\<lparr>outbound_queue := [beat 1]\<rparr>) interleaved_run)) =
       [beat 1, beat 3]
   \<and> subseq [beat 1, beat 3]
        (map written_message
          (written_since (connected_bridge\<lparr>outbound_queue := [beat 1]\<rparr>)
             (run (connected_bridge\<lparr>outbound_queue := [beat 1]\<rparr>) interleaved_run)))"
proof -
  let ?s = "connected_bridge\<lparr>outbound_queue := [beat 1]\<rparr>"
  have w: "map written_message (written_since ?s (run ?s interleaved_run)) = [beat 1, beat 3]"
    by (simp add: interleaved_run_def connected_bridge_def example_bridge_def
        RustBridge_init_def written_since_def run_def send_message_eq sender_iteration_def
        send_by_protocol_def send_websocket_def except_Exception_def is_Exception_def)
  have d: "distinct (outbound_queue ?s @ produced interleaved_run)"
    by (simp add: interleaved_run_def beat_inject)
  have e: "subseq [beat 1, beat 3] (outbound_queue ?s @ produced interleaved_run)"
    by (simp add: interleaved_run_def beat_inject)
  show ?thesis
    using d e w
      sender_writes_in_enqueue_order [of ?s interleaved_run "beat 1" "beat 3"]
    by simp
qed
section \<open>Write failures in the sender loop\<close>

lemma transport_handle_update [simp]:
  "transport_handle (s\<lparr>outbound_queue := q\<rparr>) = transport_handle s"
  "transport_handle (s\<lparr>connection_errors := c\<rparr>) = transport_handle s"
  by (simp_all add: transport_handle_def
      split: protocol_attr.splits CommunicationProtocol.splits)

lemma sender_iteration_raises:
  assumes "outbound_queue s = m # rest" and "transport_handle s = Some h"
    and "counted_failure e"
  shows "sender_iteration s (WriteRaises e) =
           (Inr (), s\<lparr>outbound_queue := rest, connection_errors := connection_errors s + 1\<rparr>)"
  using assms
  by (auto simp: sender_iteration_def send_by_protocol_def transport_handle_def
      send_websocket_def send_redis_def send_tcp_def counted_failure_def is_Exception_def
      except_Exception_def Let_def
      split: protocol_attr.splits CommunicationProtocol.splits option.splits)

lemma sender_iteration_ok:
  assumes "outbound_queue s = m # rest" and "protocol s = Member p"
    and "transport_handle s = Some h" and "map_of m ''type'' = Some t"
  shows "sender_iteration s WriteOk =
           (Inr (), s\<lparr>outbound_queue := rest, wire := wire s @ [wire_form p m],
                       messages_sent := messages_sent s + 1\<rparr>)"
  using assms
  by (cases p)
     (simp_all add: sender_iteration_def send_by_protocol_def transport_handle_def
        send_websocket_def send_redis_def send_tcp_def wire_form_def dict_get_def)

text \<open>
  C5, as the specification has it, fails in one part. After three writes that raise and
  one that goes through, the error counter of a fresh bridge reads 3 and the loop is still
  running, but the three messages whose writes raised are lost: they are no longer on the
  queue and were not written, and only the fourth message is on the wire.
\<close>

theorem failed_writes_lose_messages:
  "message_sender (connected_bridge\<lparr>outbound_queue := [beat 1, beat 2, beat 3, beat 4]\<rparr>)
     [WriteRaises OSError, WriteRaises OSError, WriteRaises OSError, WriteOk] =
   (connected_bridge\<lparr>outbound_queue := [], wire := [WsFrame (beat 4)],
      connection_errors := 3, messages_sent := 1\<rparr>, Running)
   \<and> beat 1 \<noteq> beat 4 \<and> beat 2 \<noteq> beat 4 \<and> beat 3 \<noteq> beat 4"
  by (simp add: connected_bridge_def example_bridge_def RustBridge_init_def beat_def
      heartbeat_message_def sender_iteration_def send_by_protocol_def send_websocket_def
      except_Exception_def is_Exception_def)

text \<open>
  C5, amended. If the sender loop of a connected bridge takes four messages off the queue,
  the writes of the first three each raise an exception that the loop counts (one of
  class \<^verbatim>\<open>Exception\<close> other than \<^verbatim>\<open>asyncio.TimeoutError\<close>) and the write of the fourth
  goes through, then \<^verbatim>\<open>connection_errors\<close> has grown by exactly 3, \<^verbatim>\<open>messages_sent\<close> by
  1, the loop is still running, the first three messages have left the queue without
  being written or put back (they are dropped), the fourth is the only new write on the
  wire, and the messages behind them are still on the queue.
\<close>

theorem sender_three_failures_then_success:
  assumes "connected s" and "protocol s = Member p" and "transport_handle s = Some h"
    and "outbound_queue s = m1 # m2 # m3 # m4 # rest"
    and "map_of m4 ''type'' = Some t"
    and "counted_failure e1" and "counted_failure e2" and "counted_failure e3"
  shows "message_sender s [WriteRaises e1, WriteRaises e2, WriteRaises e3, WriteOk] =
           (s\<lparr>outbound_queue := rest,
              wire := wire s @ [wire_form p m4],
              connection_errors := connection_errors s + 3,
              messages_sent := messages_sent s + 1\<rparr>, Running)"
proof -
  let ?s1 = "s\<lparr>outbound_queue := m2 # m3 # m4 # rest,
                connection_errors := connection_errors s + 1\<rparr>"
  let ?s2 = "s\<lparr>outbound_queue := m3 # m4 # rest,
                connection_errors := connection_errors s + 2\<rparr>"
  let ?s3 = "s\<lparr>outbound_queue := m4 # rest,
                connection_errors := connection_errors s + 3\<rparr>"
  have h: "transport_handle ?s1 = Some h" "transport_handle ?s2 = Some h"
    "transport_handle ?s3 = Some h"
    using assms(3) by simp_all
  have 1: "sender_iteration s (WriteRaises e1) = (Inr (), ?s1)"
    using sender_iteration_raises [OF assms(4) assms(3) assms(6)] by simp
  have 2: "sender_iteration ?s1 (WriteRaises e2) = (Inr (), ?s2)"
    using sender_iteration_raises [of ?s1 m2 "m3 # m4 # rest" h e2] h assms(7) by simp
  have 3: "sender_iteration ?s2 (WriteRaises e3) = (Inr (), ?s3)"
    using sender_iteration_raises [of ?s2 m3 "m4 # rest" h e3] h assms(8) by simp
  have 4: "sender_iteration ?s3 WriteOk =
             (Inr (), s\<lparr>outbound_queue := rest,
               wire := wire s @ [wire_form p m4],
               connection_errors := connection_errors s + 3,
               messages_sent := messages_sent s + 1\<rparr>)"
    using sender_iteration_ok [of ?s3 m4 rest p h t] h assms(2) assms(5) by simp
  show ?thesis
    using assms(1) by (simp add: 1 2 3 4)
qed

theorem sender_three_failures_witness:
  "connected (connected_bridge\<lparr>outbound_queue := [beat 1, beat 2, beat 3, beat 4]\<rparr>)
   \<and> protocol (connected_bridge\<lparr>outbound_queue := [beat 1, beat 2, beat 3, beat 4]\<rparr>)
       = Member WEBSOCKET
   \<and> transport_handle (connected_bridge\<lparr>outbound_queue := [beat 1, beat 2, beat 3, beat 4]\<rparr>)
       = Some (Handle 1)
   \<and> map_of (beat 4) ''type'' = Some (PStr ''heartbeat'')
   \<and> counted_failure OSError \<and> counted_failure ConnectionError
   \<and> message_sender (connected_bridge\<lparr>outbound_queue := [beat 1, beat 2, beat 3, beat 4]\<rparr>)
       [WriteRaises OSError, WriteRaises ConnectionError, WriteRaises OSError, WriteOk] =
      (connected_bridge\<lparr>outbound_queue := [], wire := [WsFrame (beat 4)],
         connection_errors := 3, messages_sent := 1\<rparr>, Running)"
proof -
  let ?s = "connected_bridge\<lparr>outbound_queue := [beat 1, beat 2, beat 3, beat 4]\<rparr>"
  have h1: "connected ?s"
    by (simp add: connected_bridge_def)
  have h2: "protocol ?s = Member WEBSOCKET"
    by (simp add: connected_bridge_def example_bridge_def RustBridge_init_def)
  have h3: "transport_handle ?s = Some (Handle 1)"
    by (simp add: connected_bridge_def transport_handle_def example_bridge_def
        RustBridge_init_def)
  have h4: "outbound_queue ?s = beat 1 # beat 2 # beat 3 # beat 4 # []"
    by simp
  have h5: "map_of (beat 4) ''type'' = Some (PStr ''heartbeat'')"
    by (simp add: beat_def heartbeat_message_def)
  have h6: "counted_failure OSError"
    by (simp add: counted_failure_def is_Exception_def)
  have h7: "counted_failure ConnectionError"
    by (simp add: counted_failure_def is_Exception_def)
  show ?thesis
    using h1 h2 h3 h5 h6 h7
      sender_three_failures_then_success [OF h1 h2 h3 h4 h5 h6 h7 h6]
    by (simp add: connected_bridge_def example_bridge_def RustBridge_init_def wire_form_def)
qed

text \<open>
  The two kinds of write failure that the amended statement leaves aside. A write that
  raises \<^verbatim>\<open>asyncio.TimeoutError\<close> is taken by the handler meant for the empty queue: the
  message is dropped, nothing is counted, and the loop goes on.
\<close>

lemma sender_write_timeout_uncounted:
  assumes "outbound_queue s = m # rest" and "transport_handle s = Some h"
    and "map_of m ''type'' = Some t"
  shows "sender_iteration s (WriteRaises TimeoutError) = (Inr (), s\<lparr>outbound_queue := rest\<rparr>)"
  using assms
  by (auto simp: sender_iteration_def send_by_protocol_def transport_handle_def
      send_websocket_def send_redis_def send_tcp_def Let_def
      split: protocol_attr.splits CommunicationProtocol.splits option.splits)

text \<open>
  A write that raises \<^verbatim>\<open>asyncio.CancelledError\<close> is taken by no handler: the message is
  dropped, nothing is counted, and the exception ends the sender task.
\<close>

lemma sender_write_cancelled_ends_loop:
  assumes "connected s" and "outbound_queue s = m # rest" and "transport_handle s = Some h"
    and "map_of m ''type'' = Some t"
  shows "message_sender s (WriteRaises CancelledError # ws) =
           (s\<lparr>outbound_queue := rest\<rparr>, Raised CancelledError)"
  using assms
  by (auto simp: sender_iteration_def send_by_protocol_def transport_handle_def
      send_websocket_def send_redis_def send_tcp_def except_Exception_def is_Exception_def
      Let_def
      split: protocol_attr.splits CommunicationProtocol.splits option.splits)

text \<open>
  A message that is neither on the queue nor put there again is never written: what the
  failed write took off the queue is gone for good.
\<close>

lemma dropped_message_never_written:
  assumes "m \<notin> set (outbound_queue s)" and "m \<notin> set (produced evs)"
  shows "m \<notin> set (map written_message (written_since s (run s evs)))"
proof
  assume written: "m \<in> set (map written_message (written_since s (run s evs)))"
  have "subseq (map written_message (written_since s (run s evs)))
          (outbound_queue s @ produced evs)"
    using run_written_since [of s evs] by (rule conjunct2)
  from this written obtain y where "y \<in> set (outbound_queue s @ produced evs)" and "m = y"
    by (rule list_emb_set)
  with assms show False by auto
qed

section \<open>Feedback requests\<close>

text \<open>The request id of a request that starts in second 1700000000 of the clock.\<close>

lemma feedback_request_id_example:
  "feedback_request_id 1700000000 = ''feedback_1700000000''"
  by (simp add: feedback_request_id_def str_int_def)

lemma map_of_delete_same: "map_of (AList.delete k al) k = None"
  by (simp add: delete_conv')

text \<open>
  A request whose future is still pending when the five seconds are over, and whose
  request id is still in the dictionary, returns \<^verbatim>\<open>None\<close> and leaves the dictionary
  without that id.
\<close>

lemma feedback_timeout_removes_entry:
  assumes "future_heap s ! future = Pending"
    and "map_of (response_futures s) request_id = Some a"
  shows "fst (get_performance_feedback_resume s request_id future) = Inr PNone
         \<and> map_of (response_futures (snd (get_performance_feedback_resume s request_id future)))
              request_id = None"
  using assms by (simp add: get_performance_feedback_resume_def map_of_delete_same)

text \<open>So does a request during whose wait nothing else happens.\<close>

lemma feedback_timeout_alone:
  "fst (get_performance_feedback_resume (snd (get_performance_feedback_start s now_s now_ms))
          (feedback_request_id now_s) (length (future_heap s))) = Inr PNone
   \<and> map_of (response_futures (snd (get_performance_feedback_resume
          (snd (get_performance_feedback_start s now_s now_ms))
          (feedback_request_id now_s) (length (future_heap s))))) (feedback_request_id now_s) = None"
  by (rule feedback_timeout_removes_entry) (simp_all add: start_eq update_conv')

text \<open>
  C7 does not hold of the code. The request id is the clock reading in whole seconds, so
  two requests that start within the same second get the same id: the second request
  takes over the dictionary entry of the first, whose future is then out of reach. A
  response to that id resolves the second request only; the future of the first stays
  pending, and when its five seconds are over its \<^verbatim>\<open>del\<close> finds no entry and raises
  \<^verbatim>\<open>KeyError\<close>.
\<close>

theorem feedback_request_ids_collide:
  "fst first_request = Waiting (feedback_request_id 1700000000) 0
   \<and> fst second_request = Waiting (feedback_request_id 1700000000) 1
   \<and> response_futures (snd first_request) = [(feedback_request_id 1700000000, 0)]
   \<and> response_futures (snd second_request) = [(feedback_request_id 1700000000, 1)]
   \<and> future_heap (snd second_request) = [Pending, Pending]
   \<and> fst (get_performance_feedback_resume
          (snd (handle_received_message (snd second_request) example_response 1700000001000))
          (feedback_request_id 1700000000) 1) = Inr (PDict [(''accuracy'', PFloat 0.9)])
   \<and> future_heap
        (snd (handle_received_message (snd second_request) example_response 1700000001000)) ! 0
       = Pending
   \<and> fst (get_performance_feedback_resume
          (snd (handle_received_message (snd second_request) example_response 1700000001000))
          (feedback_request_id 1700000000) 0) = Inl KeyError"
  by (simp add: first_request_def second_request_def start_eq example_bridge_def
      RustBridge_init_def handle_received_message_def dict_get_def example_response_def
      get_performance_feedback_resume_def)

text \<open>
  C2 does not hold of the code for every call. Of two requests that started within the
  same second and that no response answers, the first times out, deletes the shared
  entry and returns \<^verbatim>\<open>None\<close>; the second then times out, finds no entry to delete, and
  raises \<^verbatim>\<open>KeyError\<close> instead of returning \<^verbatim>\<open>None\<close>.
\<close>

theorem feedback_timeout_raises_KeyError:
  "get_performance_feedback_resume (snd second_request) (feedback_request_id 1700000000) 0 =
     (Inr PNone, (snd second_request)\<lparr>future_heap := [Cancelled, Pending], response_futures := []\<rparr>)
   \<and> fst (get_performance_feedback_resume
          (snd (get_performance_feedback_resume (snd second_request)
                  (feedback_request_id 1700000000) 0))
          (feedback_request_id 1700000000) 1) = Inl KeyError"
  by (simp add: first_request_def second_request_def start_eq example_bridge_def
      RustBridge_init_def get_performance_feedback_resume_def)

section \<open>Receiving over Redis\<close>

text \<open>
  C8 does not hold of the code. \<^verbatim>\<open>_receive_redis\<close> returns \<^verbatim>\<open>None\<close> whatever was
  published, so a pass of the receiver loop of a connected Redis bridge leaves the bridge
  as it was, also when a \<^verbatim>\<open>status_request\<close> is waiting on the channel.
\<close>

theorem receive_redis_returns_nothing:
  "receive_redis s inbound = Inr None
   \<and> message_receiver_iteration redis_bridge
        (RecvMessage [(''type'', PStr ''status_request'')]) 1700000000000 = (Inr (), redis_bridge)"
  by (simp add: receive_redis_def message_receiver_iteration_def redis_bridge_def
      RustBridge_init_def)

end
